theory Spec2Isabelle
  imports Main "HOL-Library.Sublist"
begin

section \<open>The client library \<open>amazon_advertising_api_v3/advertising_api.py\<close>\<close>

text \<open>
  A shallow embedding of the class \<open>AdvertisingApiV3\<close> and of \<open>NoRedirectHandler\<close>.
  Python values are typed the way the docstrings and the call sites use them: tokens,
  identifiers and paths are strings or \<open>None\<close> (\<open>string option\<close>), a \<open>params\<close>
  dictionary is a list of key/value pairs in insertion order with string keys and
  scalar values. Every \<open>raise\<close> is a branch \<open>Inl\<close> of the result; every call of
  \<open>urlopen\<close> is recorded in the state, so that "no network call" is a statement about
  that record. Text is 7-bit: the library functions below are exact for strings of
  characters below 128, where Python's \<open>str\<close> and its UTF-8 bytes coincide.
\<close>

subsection \<open>Values\<close>

text \<open>What \<open>json.loads\<close> returns (numbers are integers; floats are not modelled).\<close>

datatype json =
    JNull
  | JBool bool
  | JInt int
  | JStr string
  | JArr "json list"
  | JObj "(string \<times> json) list"

text \<open>The values of a \<open>params\<close> dictionary: \<open>None\<close>, \<open>bool\<close>, \<open>int\<close>, \<open>str\<close>.\<close>

datatype scalar = SNone | SBool bool | SInt int | SStr string

type_synonym params = "(string \<times> scalar) list"

type_synonym bytes = string

text \<open>
  The uniform result dictionary \<open>{'success': ..., 'code': ..., 'response': ...}\<close>. The
  \<open>response\<close> entry is a string everywhere but in \<open>_download\<close>, which stores the decoded
  JSON structure.
\<close>

datatype body = Text string | Decoded json

record result =
  success :: bool
  code :: int
  response :: body

text \<open>
  The exceptions that leave a method. \<open>HTTPError\<close> carries \<open>e.code\<close>, \<open>e.msg\<close> and the
  bytes of \<open>e.read()\<close>. \<open>TransportError\<close> stands for whatever else \<open>Request(...)\<close> or
  \<open>urlopen\<close> raise (\<open>ValueError\<close> for a URL without scheme, \<open>URLError\<close> for a failed
  connection): the methods catch \<open>HTTPError\<close> only, so all of these propagate alike.
  \<open>NonStringToken\<close> cuts a run of \<open>do_refresh_token\<close> in which the token endpoint sends
  an \<open>access_token\<close> that is not a JSON string, which the session type cannot hold.
\<close>

datatype exn =
    KeyError string
  | ValueError string
  | AttributeError string
  | TypeError
  | JSONDecodeError
  | UnicodeDecodeError
  | BadGzipFile
  | HTTPError int string bytes
  | TransportError
  | NonStringToken

subsection \<open>The standard-library functions applied to data the client builds\<close>

text \<open>\<open>str(n)\<close> for an integer: decimal digits, a minus sign for negative numbers.\<close>

definition digit_char :: "nat \<Rightarrow> char" where
  "digit_char d = char_of (48 + d)"

function show_nat :: "nat \<Rightarrow> string" where
  "show_nat n = (if n < 10 then [digit_char n] else show_nat (n div 10) @ [digit_char (n mod 10)])"
  by pat_completeness auto
termination
  by (relation "measure id") auto

declare show_nat.simps [simp del]

definition show_int :: "int \<Rightarrow> string" where
  "show_int i = (if i < 0 then CHR ''-'' # show_nat (nat (- i)) else show_nat (nat i))"

fun py_str :: "scalar \<Rightarrow> string" where
  "py_str SNone = ''None''"
| "py_str (SBool b) = (if b then ''True'' else ''False'')"
| "py_str (SInt i) = show_int i"
| "py_str (SStr s) = s"

text \<open>
  \<open>urllib.parse.quote_plus(s)\<close> with the default \<open>safe=''\<close>: letters, digits and
  \<open>_.-~\<close> are kept, a space becomes \<open>+\<close>, every other character becomes \<open>%XX\<close> with
  upper-case hexadecimal digits.
\<close>

definition always_safe :: "char \<Rightarrow> bool" where
  "always_safe c \<longleftrightarrow>
     c \<in> set ''ABCDEFGHIJKLMNOPQRSTUVWXYZabcdefghijklmnopqrstuvwxyz0123456789_.-~''"

definition hex_upper :: "nat \<Rightarrow> char" where
  "hex_upper d = ''0123456789ABCDEF'' ! d"

definition hex_lower :: "nat \<Rightarrow> char" where
  "hex_lower d = ''0123456789abcdef'' ! d"

definition quote_char :: "char \<Rightarrow> string" where
  "quote_char c =
     (if c = CHR '' '' then ''+''
      else if always_safe c then [c]
      else [CHR ''%'', hex_upper (of_char c div 16), hex_upper (of_char c mod 16)])"

definition quote_plus :: "string \<Rightarrow> string" where
  "quote_plus s = concat (map quote_char s)"

text \<open>\<open>'&'.join(l)\<close>.\<close>

fun join_amp :: "string list \<Rightarrow> string" where
  "join_amp [] = []"
| "join_amp [x] = x"
| "join_amp (x # y # ys) = x @ ''&'' @ join_amp (y # ys)"

text \<open>
  \<open>urllib.parse.urlencode(query)\<close> for a dictionary:
  \<open>quote_plus(str(k)) + '=' + quote_plus(str(v))\<close> for each item, joined by \<open>&\<close>.
\<close>

definition urlencode :: "params \<Rightarrow> string" where
  "urlencode query = join_amp (map (\<lambda>(k, v). quote_plus k @ ''='' @ quote_plus (py_str v)) query)"

text \<open>
  \<open>json.dumps(obj)\<close> with its defaults (\<open>ensure_ascii=True\<close>, separators \<open>', '\<close> and
  \<open>': '\<close>): in a string \<open>"\<close> and \<open>\\<close> get a backslash, the control characters
  their short escapes or \<open>\u00xx\<close>, and so does everything outside \<open>' '..'~'\<close>.
\<close>

definition json_escape_char :: "char \<Rightarrow> string" where
  "json_escape_char c =
     (if c = CHR ''\"'' then [CHR 0x5C, CHR ''\"'']
      else if c = CHR 0x5C then [CHR 0x5C, CHR 0x5C]
      else if c = CHR 0x0A then [CHR 0x5C, CHR ''n'']
      else if c = CHR 0x0D then [CHR 0x5C, CHR ''r'']
      else if c = CHR 0x09 then [CHR 0x5C, CHR ''t'']
      else if c = CHR 0x08 then [CHR 0x5C, CHR ''b'']
      else if c = CHR 0x0C then [CHR 0x5C, CHR ''f'']
      else if 32 \<le> (of_char c :: nat) \<and> (of_char c :: nat) \<le> 126 then [c]
      else [CHR 0x5C, CHR ''u'', CHR ''0'', CHR ''0'',
            hex_lower (of_char c div 16), hex_lower (of_char c mod 16)])"

definition json_string :: "string \<Rightarrow> string" where
  "json_string s = [CHR ''\"''] @ concat (map json_escape_char s) @ [CHR ''\"'']"

fun json_scalar :: "scalar \<Rightarrow> string" where
  "json_scalar SNone = ''null''"
| "json_scalar (SBool b) = (if b then ''true'' else ''false'')"
| "json_scalar (SInt i) = show_int i"
| "json_scalar (SStr s) = json_string s"

fun join_comma :: "string list \<Rightarrow> string" where
  "join_comma [] = []"
| "join_comma [x] = x"
| "join_comma (x # y # ys) = x @ '', '' @ join_comma (y # ys)"

definition json_dumps :: "params \<Rightarrow> string" where
  "json_dumps obj =
     ''{'' @ join_comma (map (\<lambda>(k, v). json_string k @ '': '' @ json_scalar v) obj) @ ''}''"

text \<open>\<open>'{}'.format(x)\<close> for a string or \<open>None\<close>.\<close>

fun format_opt :: "string option \<Rightarrow> string" where
  "format_opt None = ''None''"
| "format_opt (Some s) = s"

text \<open>\<open>needle in haystack\<close> for two strings.\<close>

fun contains :: "string \<Rightarrow> string \<Rightarrow> bool" where
  "contains needle [] = (needle = [])"
| "contains needle (c # cs) = (prefix needle (c # cs) \<or> contains needle cs)"

subsection \<open>Requests, responses and the environment\<close>

text \<open>
  A \<open>urllib.request.Request\<close>: the URL, the headers, the body and the verb
  (\<open>get_method()\<close>: \<open>GET\<close> without a body and \<open>POST\<close> with one, unless \<open>req.method\<close> is set).
\<close>

record request =
  url :: string
  headers :: "(string \<times> string) list"
  data :: "bytes option"
  http_method :: string

text \<open>
  The HTTP response as it reaches the response processors of the opener: status,
  reason phrase, headers (looked up by their canonical name) and body.
\<close>

record raw_response =
  rcode :: int
  rmsg :: string
  rheaders :: "(string \<times> string) list"
  rbody :: bytes

text \<open>
  What \<open>urlopen\<close> returns: a response object, or the plain dictionary
  \<open>{'code': ..., 'location': ...}\<close> that \<open>NoRedirectHandler\<close> puts in its place.
\<close>

datatype py_response =
    RespObj raw_response
  | RespDict int "string option"

text \<open>One entry of the table \<open>regions\<close> (module \<open>amazon_advertising_api.regions\<close>).\<close>

record region =
  prod :: string
  sandbox_host :: string
  region_token_url :: string

text \<open>
  Everything the class takes from outside this file. \<open>regions\<close> and the two entries of
  \<open>versions\<close> are the imported tables. \<open>net\<close> is the network: the response to a
  request, given the requests made before (\<open>None\<close>: \<open>Request(...)\<close> or \<open>urlopen\<close> raise
  something that is not an \<open>HTTPError\<close>); redirects that the library follows on its own
  are inside \<open>net\<close>. The other fields are library functions applied to data that comes
  from the network or from the caller: \<open>json.loads\<close> (\<open>None\<close>: \<open>JSONDecodeError\<close>),
  \<open>gzip.GzipFile(fileobj=...).read()\<close> (\<open>None\<close>: it raises), \<open>bytes.decode('utf-8')\<close>
  (\<open>None\<close>: \<open>UnicodeDecodeError\<close>), the \<open>str()\<close> of a bytes object and
  \<open>urllib.parse.unquote\<close>.
\<close>

record env =
  regions :: "string \<Rightarrow> region option"
  versions_api_version :: string
  versions_application_version :: string
  net :: "request list \<Rightarrow> request \<Rightarrow> raw_response option"
  json_loads :: "string \<Rightarrow> json option"
  gunzip :: "bytes \<Rightarrow> bytes option"
  decode_utf8 :: "bytes \<Rightarrow> string option"
  bytes_repr :: "bytes \<Rightarrow> string"
  unquote :: "string \<Rightarrow> string"

subsection \<open>The client object and the process state\<close>

record session =
  client_id :: string
  client_secret :: string
  access_token :: "string option"
  refresh_token :: "string option"
  api_version :: string
  user_agent :: string
  profile_id :: "string option"
  token_url :: string
  sandbox :: bool
  endpoint :: string

text \<open>
  The state a method runs in: the client object \<open>self\<close>, whether
  \<open>urllib.request.install_opener\<close> has replaced the process-wide opener by the one with
  \<open>NoRedirectHandler\<close>, and the requests handed to \<open>urlopen\<close> so far.
\<close>

record world =
  self :: session
  opener_installed :: bool
  sent :: "request list"

text \<open>\<open>AdvertisingApiV3.__init__\<close>.\<close>

definition init ::
  "env \<Rightarrow> string \<Rightarrow> string \<Rightarrow> string \<Rightarrow> string option \<Rightarrow> string option \<Rightarrow> string option \<Rightarrow> bool
     \<Rightarrow> exn + session" where
  "init env cid secret region_code pid atoken rtoken sbox =
     (case regions env region_code of
        Some r \<Rightarrow>
          Inr \<lparr>client_id = cid,
               client_secret = secret,
               access_token = atoken,
               refresh_token = rtoken,
               api_version = versions_api_version env,
               user_agent = ''AdvertisingAPI Python Client Library v''
                              @ versions_application_version env,
               profile_id = pid,
               token_url = region_token_url r,
               sandbox = sbox,
               endpoint = (if sbox then sandbox_host r else prod r)\<rparr>
      | None \<Rightarrow> Inl (KeyError (''Region '' @ region_code @ '' not found in regions.'')))"

subsection \<open>\<open>urlopen\<close> and the response processors\<close>

text \<open>
  \<open>HTTPErrorProcessor.http_response\<close> of the library: a 2xx response is returned, any
  other one ends in an \<open>HTTPError\<close>.
\<close>

definition HTTPErrorProcessor_http_response :: "raw_response \<Rightarrow> exn + py_response" where
  "HTTPErrorProcessor_http_response r =
     (if 200 \<le> rcode r \<and> rcode r < 300 then Inr (RespObj r)
      else Inl (HTTPError (rcode r) (rmsg r) (rbody r)))"

text \<open>\<open>NoRedirectHandler.http_response\<close> (and \<open>https_response\<close>, the same function).\<close>

definition NoRedirectHandler_http_response :: "raw_response \<Rightarrow> exn + py_response" where
  "NoRedirectHandler_http_response r =
     (if rcode r = 307 then
        (case map_of (rheaders r) ''Location'' of
           Some l \<Rightarrow> Inr (RespDict 307 (Some l))
         | None \<Rightarrow> Inr (RespDict (rcode r) None))
      else HTTPErrorProcessor_http_response r)"

text \<open>
  \<open>urllib.request.urlopen(req)\<close>: the request is recorded, the network answers, and the
  response goes through the processor of the opener that is installed.
\<close>

definition urlopen :: "env \<Rightarrow> request \<Rightarrow> world \<Rightarrow> (exn + py_response) \<times> world" where
  "urlopen env req w =
     (let w' = w\<lparr>sent := sent w @ [req]\<rparr> in
      case net env (sent w) req of
        None \<Rightarrow> (Inl TransportError, w')
      | Some r \<Rightarrow>
          (if opener_installed w then NoRedirectHandler_http_response r
           else HTTPErrorProcessor_http_response r, w'))"

text \<open>
  The operations the methods apply to what \<open>urlopen\<close> returned. On a response object
  \<open>'location' in response\<close> iterates over the lines of the body, which are bytes and
  never equal to a \<open>str\<close>; on the dictionary it is a key test, and the key is always
  there. A dictionary has no attribute \<open>code\<close> and no method \<open>read\<close>.
\<close>

fun has_location_key :: "py_response \<Rightarrow> bool" where
  "has_location_key (RespObj r) = False"
| "has_location_key (RespDict c l) = True"

fun attr_code :: "py_response \<Rightarrow> exn + int" where
  "attr_code (RespObj r) = Inr (rcode r)"
| "attr_code (RespDict c l) = Inl (AttributeError ''code'')"

fun read_body :: "py_response \<Rightarrow> exn + bytes" where
  "read_body (RespObj r) = Inr (rbody r)"
| "read_body (RespDict c l) = Inl (AttributeError ''read'')"

text \<open>The result of an \<open>except urllib.error.HTTPError as e\<close> clause.\<close>

definition http_error_result :: "env \<Rightarrow> int \<Rightarrow> string \<Rightarrow> bytes \<Rightarrow> result" where
  "http_error_result env c m b =
     \<lparr>success = False, code = c, response = Text (m @ '': '' @ bytes_repr env b)\<rparr>"

subsection \<open>\<open>_operation\<close>: the request dispatcher\<close>

text \<open>The header dictionary built in \<open>_operation\<close> once the token is known.\<close>

definition operation_headers :: "session \<Rightarrow> string \<Rightarrow> (string \<times> string) list" where
  "operation_headers s tok =
     [(''Authorization'', ''Bearer '' @ tok),
      (''Amazon-Advertising-API-ClientId'', client_id s),
      (''Content-Type'', ''application/json''),
      (''User-Agent'', user_agent s)]
     @ (if sandbox s then [(''BIDDING_CONTROLS_ON'', ''true'')] else [])
     @ (case profile_id s of
          Some p \<Rightarrow> (if p \<noteq> [] then [(''Amazon-Advertising-API-Scope'', p)] else [])
        | None \<Rightarrow> [])"

text \<open>The version part of the URL: empty for \<open>version=None\<close>, \<open>/version\<close> otherwise.\<close>

fun use_version :: "string option \<Rightarrow> string" where
  "use_version None = []"
| "use_version (Some v) = ''/'' @ v"

text \<open>
  The URL and the body chosen by the verb: a \<open>GET\<close> puts the parameters behind a
  \<open>?\<close>, every other verb sends them as JSON. (The docstring types the parameters of
  a \<open>GET\<close> as a string; \<open>urlencode\<close> raises \<open>TypeError\<close> for a non-empty string,
  and the callers pass dictionaries or \<open>None\<close>, which is what \<open>params option\<close> holds.)
\<close>

definition operation_url ::
  "session \<Rightarrow> string \<Rightarrow> params option \<Rightarrow> string \<Rightarrow> string option \<Rightarrow> string" where
  "operation_url s interface ps verb version =
     (if verb = ''GET'' then
        ''https://'' @ endpoint s @ use_version version @ ''/'' @ interface
          @ (case ps of Some p \<Rightarrow> ''?'' @ urlencode p | None \<Rightarrow> [])
      else ''https://'' @ endpoint s @ use_version version @ ''/'' @ interface)"

definition operation_data :: "params option \<Rightarrow> string \<Rightarrow> bytes option" where
  "operation_data ps verb =
     (if verb = ''GET'' then None
      else (case ps of Some p \<Rightarrow> Some (json_dumps p) | None \<Rightarrow> None))"

definition operation_request ::
  "session \<Rightarrow> string \<Rightarrow> string \<Rightarrow> params option \<Rightarrow> string \<Rightarrow> string option \<Rightarrow> request" where
  "operation_request s tok interface ps verb version =
     \<lparr>url = operation_url s interface ps verb version,
      headers = operation_headers s tok,
      data = operation_data ps verb,
      http_method = verb\<rparr>"

text \<open>The \<open>try\<close> block at the end of \<open>_operation\<close>.\<close>

definition operation_send :: "env \<Rightarrow> request \<Rightarrow> world \<Rightarrow> (exn + result) \<times> world" where
  "operation_send env req w =
     (case urlopen env req w of
        (Inl (HTTPError c m b), w') \<Rightarrow> (Inr (http_error_result env c m b), w')
      | (Inl e, w') \<Rightarrow> (Inl e, w')
      | (Inr f, w') \<Rightarrow>
          (case attr_code f of
             Inl e \<Rightarrow> (Inl e, w')
           | Inr c \<Rightarrow>
               (case read_body f of
                  Inl e \<Rightarrow> (Inl e, w')
                | Inr b \<Rightarrow>
                    (case decode_utf8 env b of
                       None \<Rightarrow> (Inl UnicodeDecodeError, w')
                     | Some t \<Rightarrow> (Inr \<lparr>success = True, code = c, response = Text t\<rparr>, w')))))"

definition operation ::
  "env \<Rightarrow> string \<Rightarrow> params option \<Rightarrow> string \<Rightarrow> string option \<Rightarrow> world
     \<Rightarrow> (exn + result) \<times> world" where
  "operation env interface ps verb version w =
     (case access_token (self w) of
        None \<Rightarrow>
          (Inr \<lparr>success = False, code = 0, response = Text ''access_token is empty.''\<rparr>, w)
      | Some tok \<Rightarrow>
          (if profile_id (self w) \<noteq> None \<and> profile_id (self w) \<noteq> Some []
           then operation_send env (operation_request (self w) tok interface ps verb version) w
           else if \<not> contains ''profiles'' interface
           then (Inr \<lparr>success = False, code = 0, response = Text ''profile_id is empty.''\<rparr>, w)
           else operation_send env (operation_request (self w) tok interface ps verb version) w))"

subsection \<open>\<open>_download\<close>: the artifact downloader\<close>

text \<open>The second request of \<open>_download\<close>, \<open>Request(url=response['location'])\<close>, and what
  is made of its response.\<close>

definition download_fetch :: "env \<Rightarrow> string \<Rightarrow> world \<Rightarrow> (exn + result) \<times> world" where
  "download_fetch env l w =
     (case urlopen env \<lparr>url = l, headers = [], data = None, http_method = ''GET''\<rparr> w of
        (Inl (HTTPError c m b), w') \<Rightarrow> (Inr (http_error_result env c m b), w')
      | (Inl e, w') \<Rightarrow> (Inl e, w')
      | (Inr res, w') \<Rightarrow>
          (case read_body res of
             Inl e \<Rightarrow> (Inl e, w')
           | Inr res_data \<Rightarrow>
               (case gunzip env res_data of
                  None \<Rightarrow> (Inl BadGzipFile, w')
                | Some d \<Rightarrow>
                    (case attr_code res of
                       Inl e \<Rightarrow> (Inl e, w')
                     | Inr c \<Rightarrow>
                         (case decode_utf8 env d of
                            None \<Rightarrow> (Inl UnicodeDecodeError, w')
                          | Some t \<Rightarrow>
                              (case json_loads env t of
                                 None \<Rightarrow> (Inl JSONDecodeError, w')
                               | Some j \<Rightarrow>
                                   (Inr \<lparr>success = True, code = c, response = Decoded j\<rparr>,
                                    w')))))))"

text \<open>
  \<open>_download(location)\<close>. The argument is the decoded \<open>location\<close> field of a status
  body. \<open>Request(url=location)\<close> takes \<open>str(location)\<close>; for a value that is not a string
  this text starts with a digit, a sign, a bracket, a brace or a capital letter of
  \<open>None\<close>, \<open>True\<close>, \<open>False\<close> and names no scheme the opener handles, so the call raises
  before anything is sent.
\<close>

definition download_request :: "session \<Rightarrow> string \<Rightarrow> string \<Rightarrow> request" where
  "download_request s p u =
     \<lparr>url = u,
      headers = [(''Authorization'', ''Bearer '' @ format_opt (access_token s)),
                 (''Content-Type'', ''application/json''),
                 (''User-Agent'', user_agent s),
                 (''Amazon-Advertising-API-Scope'', p)],
      data = None,
      http_method = ''GET''\<rparr>"

definition download :: "env \<Rightarrow> json \<Rightarrow> world \<Rightarrow> (exn + result) \<times> world" where
  "download env location w =
     (case profile_id (self w) of
        None \<Rightarrow> (Inl (ValueError ''Invalid profile Id.''), w)
      | Some p \<Rightarrow>
          (let w1 = w\<lparr>opener_installed := True\<rparr>
           in case location of
                JStr u \<Rightarrow>
                  (case urlopen env (download_request (self w) p u) w1 of
                     (Inl (HTTPError c m b), w2) \<Rightarrow> (Inr (http_error_result env c m b), w2)
                   | (Inl e, w2) \<Rightarrow> (Inl e, w2)
                   | (Inr resp, w2) \<Rightarrow>
                       (if has_location_key resp then
                          (case resp of
                             RespDict c (Some l) \<Rightarrow> download_fetch env l w2
                           | _ \<Rightarrow>
                               (case attr_code resp of
                                  Inl e \<Rightarrow> (Inl e, w2)
                                | Inr c \<Rightarrow>
                                    (Inr \<lparr>success = False, code = c,
                                          response = Text ''Location is empty.''\<rparr>, w2)))
                        else
                          (case attr_code resp of
                             Inl e \<Rightarrow> (Inl e, w2)
                           | Inr c \<Rightarrow>
                               (Inr \<lparr>success = False, code = c,
                                     response = Text ''Location not found.''\<rparr>, w2))))
              | _ \<Rightarrow> (Inl TransportError, w1)))"

subsection \<open>\<open>do_refresh_token\<close>\<close>


text \<open>\<open>json_data['access_token']\<close> for the decoded body of the token response.\<close>

fun subscript :: "json \<Rightarrow> string \<Rightarrow> exn + json" where
  "subscript (JObj kvs) k = (case map_of kvs k of Some v \<Rightarrow> Inr v | None \<Rightarrow> Inl (KeyError k))"
| "subscript j k = Inl TypeError"


subsection \<open>The endpoint methods\<close>

text \<open>
  Of the methods that only name a path and a verb, the ones used below. Where the class
  body defines a method twice (\<open>request_report\<close>, \<open>get_report\<close>, \<open>request_snapshot\<close>,
  \<open>get_snapshot\<close>), the later definition is the one the class has.
\<close>

definition get_campaign :: "env \<Rightarrow> string \<Rightarrow> bool \<Rightarrow> world \<Rightarrow> (exn + result) \<times> world" where
  "get_campaign env campaign_id extended w =
     operation env (''sp/campaigns'' @ (if extended then ''/extended'' else []) @ ''/'' @ campaign_id)
       None ''GET'' (Some ''v2'') w"

definition list_campaigns :: "env \<Rightarrow> params option \<Rightarrow> bool \<Rightarrow> world \<Rightarrow> (exn + result) \<times> world" where
  "list_campaigns env d extended w =
     operation env (''sp/campaigns'' @ (if extended then ''/extended'' else [])) d ''GET''
       (Some ''v2'') w"

definition list_changes :: "env \<Rightarrow> params option \<Rightarrow> world \<Rightarrow> (exn + result) \<times> world" where
  "list_changes env d w = operation env ''history'' d ''POST'' None w"

definition request_report ::
  "env \<Rightarrow> string option \<Rightarrow> string option \<Rightarrow> params option \<Rightarrow> string \<Rightarrow> world
     \<Rightarrow> (exn + result) \<times> world" where
  "request_report env record_type report_id d campaign_type w =
     (case record_type of
        Some rt \<Rightarrow> operation env (campaign_type @ ''/'' @ rt @ ''/report'') d ''POST'' (Some ''v2'') w
      | None \<Rightarrow>
          (case report_id of
             Some rid \<Rightarrow> operation env (''reports/'' @ rid) None ''GET'' (Some ''v2'') w
           | None \<Rightarrow>
               (Inr \<lparr>success = False, code = 0,
                     response = Text ''record_type and report_id are both empty.''\<rparr>, w)))"

text \<open>\<open>if not data: data = {}\<close>: \<open>None\<close> and the empty dictionary are the false values.\<close>

fun or_empty :: "params option \<Rightarrow> params" where
  "or_empty None = []"
| "or_empty (Some d) = d"

definition request_snapshot ::
  "env \<Rightarrow> string option \<Rightarrow> string option \<Rightarrow> params option \<Rightarrow> string \<Rightarrow> world
     \<Rightarrow> (exn + result) \<times> world" where
  "request_snapshot env record_type snapshot_id d campaign_type w =
     (case record_type of
        Some rt \<Rightarrow>
          operation env (campaign_type @ ''/'' @ rt @ ''/snapshot'') (Some (or_empty d)) ''POST''
            (Some ''v2'') w
      | None \<Rightarrow>
          (case snapshot_id of
             Some sid \<Rightarrow>
               operation env (''snapshots/'' @ sid) (Some (or_empty d)) ''GET'' (Some ''v2'') w
           | None \<Rightarrow>
               (Inr \<lparr>success = False, code = 0,
                     response = Text ''record_type and snapshot_id are both empty.''\<rparr>, w)))"

text \<open>\<open>json.loads(res['response'])[key]\<close>.\<close>

definition loads_item :: "env \<Rightarrow> result \<Rightarrow> string \<Rightarrow> exn + json" where
  "loads_item env res k =
     (case response res of
        Text t \<Rightarrow> (case json_loads env t of None \<Rightarrow> Inl JSONDecodeError | Some j \<Rightarrow> subscript j k)
      | Decoded j \<Rightarrow> Inl TypeError)"

text \<open>
  The body shared by \<open>get_report\<close> and \<open>get_snapshot\<close> once the condition of the \<open>if\<close>
  holds: \<open>res = self._download(location=json.loads(res['response'])['location'])\<close>.
\<close>

definition download_location :: "env \<Rightarrow> result \<Rightarrow> world \<Rightarrow> (exn + result) \<times> world" where
  "download_location env res w =
     (case loads_item env res ''location'' of
        Inl e \<Rightarrow> (Inl e, w)
      | Inr loc \<Rightarrow> download env loc w)"

definition get_report :: "env \<Rightarrow> string \<Rightarrow> world \<Rightarrow> (exn + result) \<times> world" where
  "get_report env report_id w =
     (case operation env (''reports/'' @ report_id) None ''GET'' (Some ''v2'') w of
        (Inl e, w') \<Rightarrow> (Inl e, w')
      | (Inr res, w') \<Rightarrow>
          (if code res = 200 then
             (case loads_item env res ''status'' of
                Inl e \<Rightarrow> (Inl e, w')
              | Inr st \<Rightarrow>
                  (if st = JStr ''SUCCESS'' then download_location env res w'
                   else (Inr res, w')))
           else (Inr res, w')))"

definition get_snapshot :: "env \<Rightarrow> string \<Rightarrow> world \<Rightarrow> (exn + result) \<times> world" where
  "get_snapshot env snapshot_id w =
     (case operation env (''snapshots/'' @ snapshot_id) None ''GET'' (Some ''v2'') w of
        (Inl e, w') \<Rightarrow> (Inl e, w')
      | (Inr res, w') \<Rightarrow>
          (case loads_item env res ''status'' of
             Inl e \<Rightarrow> (Inl e, w')
           | Inr st \<Rightarrow>
               (if st = JStr ''SUCCESS'' then download_location env res w'
                else (Inr res, w'))))"

subsection \<open>The readings of the specification that differ from the code's tests\<close>

text \<open>
  "The path is under \<open>profiles\<close>", as the specification puts the exemption from the
  profile check: the path is \<open>profiles\<close> or starts with \<open>profiles/\<close>. The code tests
  \<open>'profiles' in interface\<close> instead (\<open>contains\<close>).
\<close>

definition under_profiles :: "string \<Rightarrow> bool" where
  "under_profiles path \<longleftrightarrow> path = ''profiles'' \<or> prefix ''profiles/'' path"


subsection \<open>The standard-library decoders\<close>

text \<open>
  The functions that read back what \<open>urlencode\<close> and \<open>json.dumps\<close> write. The client
  calls none of them but \<open>unquote\<close>; they state what "decoding" a query string or a
  JSON body gives.
\<close>

text \<open>
  \<open>%xx\<close> escapes replaced by the character they name. This is what
  \<open>urllib.parse.unquote\<close> does on text whose escapes are all below \<open>%80\<close>; an escape that
  is not two hexadecimal digits is kept as it is.
\<close>

fun hex_value :: "char \<Rightarrow> nat option" where
  "hex_value c =
     (let n = (of_char c :: nat) in
      if 48 \<le> n \<and> n \<le> 57 then Some (n - 48)
      else if 65 \<le> n \<and> n \<le> 70 then Some (n - 55)
      else if 97 \<le> n \<and> n \<le> 102 then Some (n - 87)
      else None)"

fun percent_decode :: "string \<Rightarrow> string" where
  "percent_decode (c # a # b # rest) =
     (if c = CHR ''%'' then
        (case (hex_value a, hex_value b) of
           (Some x, Some y) \<Rightarrow> char_of (16 * x + y) # percent_decode rest
         | _ \<Rightarrow> c # percent_decode (a # b # rest))
      else c # percent_decode (a # b # rest))"
| "percent_decode cs = cs"



















subsection \<open>Concrete environments and sessions\<close>




text \<open>A table \<open>regions\<close> with one entry, and the \<open>repr\<close> of bytes that need no escape.\<close>

definition example_regions :: "string \<Rightarrow> region option" where
  "example_regions c =
     (if c = ''NA''
      then Some \<lparr>prod = ''prod.example'', sandbox_host = ''sandbox.example'',
                 region_token_url = ''token.example/auth''\<rparr>
      else None)"

definition bytes_repr_plain :: "bytes \<Rightarrow> string" where
  "bytes_repr_plain b = ''b'' @ [CHR 0x27] @ b @ [CHR 0x27]"

text \<open>
  An environment is fixed by its network, by what \<open>json.loads\<close> answers and by what
  \<open>gzip\<close> answers; the examples below use ASCII bodies only, which \<open>decode('utf-8')\<close>
  leaves as they are.
\<close>

definition env_with ::
  "(request list \<Rightarrow> request \<Rightarrow> raw_response option) \<Rightarrow> (string \<Rightarrow> json option)
     \<Rightarrow> (bytes \<Rightarrow> bytes option) \<Rightarrow> env" where
  "env_with n jl gz =
     \<lparr>regions = example_regions,
      versions_api_version = ''v2'',
      versions_application_version = ''1.0'',
      net = n,
      json_loads = jl,
      gunzip = gz,
      decode_utf8 = Some,
      bytes_repr = bytes_repr_plain,
      unquote = percent_decode\<rparr>"

text \<open>No connection: every \<open>urlopen\<close> raises \<open>URLError\<close>; no text is valid JSON or gzip.\<close>

definition env_offline :: env where
  "env_offline = env_with (\<lambda>log req. None) (\<lambda>t. None) (\<lambda>b. None)"

text \<open>
  The client that \<open>AdvertisingApiV3('C', 'S', 'NA', sandbox=True)\<close> builds from
  \<open>example_regions\<close>, with the given tokens and profile.
\<close>

definition example_session :: "string option \<Rightarrow> string option \<Rightarrow> string option \<Rightarrow> session" where
  "example_session atoken rtoken pid =
     \<lparr>client_id = ''C'', client_secret = ''S'', access_token = atoken, refresh_token = rtoken,
      api_version = ''v2'', user_agent = ''AdvertisingAPI Python Client Library v1.0'',
      profile_id = pid, token_url = ''token.example/auth'', sandbox = True,
      endpoint = ''sandbox.example''\<rparr>"

definition fresh :: "session \<Rightarrow> world" where
  "fresh s = \<lparr>self = s, opener_installed = False, sent = []\<rparr>"




text \<open>
  A server that answers the status request with 202 and a body whose status is
  \<open>SUCCESS\<close>, and is not reachable afterwards.
\<close>

definition status_body :: string where
  "status_body =
     ''{\"status\": \"SUCCESS\", \"location\": \"https://sandbox.example/v2/snapshots/1/download\"}''"

definition env_accepted :: env where
  "env_accepted =
     env_with
       (\<lambda>log req. if log = []
                   then Some \<lparr>rcode = 202, rmsg = ''Accepted'', rheaders = [], rbody = status_body\<rparr>
                   else None)
       (\<lambda>t. if t = status_body
             then Some (JObj [(''status'', JStr ''SUCCESS''),
                              (''location'',
                               JStr ''https://sandbox.example/v2/snapshots/1/download'')])
             else None)
       (\<lambda>b. None)"



section \<open>Properties\<close>

lemmas example_defs = env_offline_def env_with_def example_regions_def example_session_def
  fresh_def bytes_repr_plain_def


lemmas operation_defs = operation_def operation_send_def operation_request_def operation_url_def
  operation_headers_def operation_data_def urlopen_def HTTPErrorProcessor_http_response_def
  NoRedirectHandler_http_response_def http_error_result_def

lemmas download_defs = download_def download_fetch_def download_request_def urlopen_def
  NoRedirectHandler_http_response_def HTTPErrorProcessor_http_response_def http_error_result_def

subsection \<open>Every call of \<open>urlopen\<close> is recorded\<close>

lemma urlopen_world: "snd (urlopen env req w) = w\<lparr>sent := sent w @ [req]\<rparr>"
  by (simp add: urlopen_def Let_def split: option.splits)


lemma operation_send_world: "snd (operation_send env req w) = w\<lparr>sent := sent w @ [req]\<rparr>"
  using urlopen_world[of env req w]
  by (cases "urlopen env req w")
     (auto simp: operation_send_def split: sum.splits exn.splits option.splits)

subsection \<open>The dispatcher's guards\<close>

text \<open>
  Claim C2. Whatever the path, the parameters, the verb and the version are, a call of
  \<open>_operation\<close> on a client whose \<open>access_token\<close> is \<open>None\<close> returns
  \<open>{'success': False, 'code': 0, 'response': 'access_token is empty.'}\<close> and leaves the
  state as it was: nothing is handed to \<open>urlopen\<close>.
\<close>

theorem operation_without_access_token:
  "access_token (self w) = None \<Longrightarrow>
   operation env interface ps verb version w =
     (Inr \<lparr>success = False, code = 0, response = Text ''access_token is empty.''\<rparr>, w)"
  by (simp add: operation_def)

theorem operation_without_access_token_witness:
  "access_token (self (fresh (example_session None None (Some ''P1'')))) = None \<and>
   operation env_offline ''sp/campaigns'' (Some [(''stateFilter'', SStr ''enabled'')]) ''GET''
       (Some ''v2'') (fresh (example_session None None (Some ''P1''))) =
     (Inr \<lparr>success = False, code = 0, response = Text ''access_token is empty.''\<rparr>,
      fresh (example_session None None (Some ''P1'')))"
  using operation_without_access_token [of "fresh (example_session None None (Some ''P1''))"
      env_offline "''sp/campaigns''" "Some [(''stateFilter'', SStr ''enabled'')]" "''GET''"
      "Some ''v2''"]
  by (simp add: example_defs)

text \<open>
  The profile guard as the code has it: with an \<open>access_token\<close> and a \<open>profile_id\<close> that
  is \<open>None\<close> or the empty string, the call is answered with \<open>profile_id is empty.\<close> and
  nothing is sent when the path does not contain the text \<open>profiles\<close>; otherwise the
  request is built and handed to \<open>urlopen\<close>. Every path under \<open>profiles\<close> contains the
  text.
\<close>

lemma prefix_contains: "prefix needle hay \<Longrightarrow> contains needle hay"
  by (cases hay) auto

lemma under_profiles_contains: "under_profiles path \<Longrightarrow> contains ''profiles'' path"
proof -
  assume "under_profiles path"
  then have "prefix ''profiles'' path"
    by (auto simp: under_profiles_def prefix_def)
  then show ?thesis by (rule prefix_contains)
qed

lemma operation_profile_id_guard:
  assumes "access_token (self w) = Some tok"
    and "profile_id (self w) = None \<or> profile_id (self w) = Some []"
  shows "operation env interface ps verb version w =
           (if contains ''profiles'' interface
            then operation_send env (operation_request (self w) tok interface ps verb version) w
            else (Inr \<lparr>success = False, code = 0, response = Text ''profile_id is empty.''\<rparr>, w))
         \<and> sent (snd (operation env interface ps verb version w)) =
           (if contains ''profiles'' interface
            then sent w @ [operation_request (self w) tok interface ps verb version]
            else sent w)"
  using assms by (auto simp: operation_def operation_send_world)

text \<open>
  Claim C3: with an \<open>access_token\<close> and no \<open>profile_id\<close>, a call whose path is not under
  \<open>profiles\<close> returns \<open>{'success': False, 'code': 0, 'response': 'profile_id is empty.'}\<close>
  without a network call, and a call whose path is under \<open>profiles\<close> is attempted. The
  second half holds (\<open>under_profiles_contains\<close>, \<open>operation_profile_id_guard\<close>). The
  first half is what the comment at the guard asks for ("Profile ID is required for all
  calls beyond authentication and getting profile info"), and the code misses it:
  \<open>get_campaign('profiles')\<close> asks for \<open>sp/campaigns/profiles\<close>, which is not under
  \<open>profiles\<close>, and with a token and no profile the request is built and handed to
  \<open>urlopen\<close> without the scope header.
\<close>

theorem get_campaign_sent_without_profile:
  "\<not> under_profiles ''sp/campaigns/profiles'' \<and>
   get_campaign env_offline ''profiles'' False (fresh (example_session (Some ''T'') None None)) =
     (Inl TransportError,
      (fresh (example_session (Some ''T'') None None))
        \<lparr>sent := [\<lparr>url = ''https://sandbox.example/v2/sp/campaigns/profiles'',
                   headers = [(''Authorization'', ''Bearer T''),
                              (''Amazon-Advertising-API-ClientId'', ''C''),
                              (''Content-Type'', ''application/json''),
                              (''User-Agent'', ''AdvertisingAPI Python Client Library v1.0''),
                              (''BIDDING_CONTROLS_ON'', ''true'')],
                   data = None, http_method = ''GET''\<rparr>]\<rparr>)"
  by (simp add: under_profiles_def get_campaign_def operation_defs example_defs)

subsection \<open>The request URL\<close>

text \<open>
  Claim C7, as stated, fails for the empty string as version: the code suppresses the
  version part for \<open>version=None\<close> only, and \<open>version=''\<close> leaves a second slash behind
  the host.
\<close>

theorem empty_version_counterexample:
  "map url (sent (snd (operation env_offline ''history'' None ''POST'' (Some [])
       (fresh (example_session (Some ''T'') None (Some ''P1'')))))) =
     [''https://sandbox.example//history'']
   \<and> ''https://sandbox.example//history'' \<noteq> ''https://sandbox.example/history''"
  by (simp add: operation_defs example_defs)

text \<open>
  Claim C7, amended. Whenever \<open>_operation\<close> passes its guards (a token, and a profile or
  a path that contains \<open>profiles\<close>), the URL of the request it hands to \<open>urlopen\<close> is
  \<open>https://{endpoint}/{version}/{path}\<close> for every string \<open>version\<close> (for the empty
  string this is \<open>https://{endpoint}//{path}\<close>), and \<open>https://{endpoint}/{path}\<close> with no
  version part when the version is suppressed by \<open>version=None\<close>; a \<open>GET\<close> with
  parameters appends \<open>?\<close> and the query string. For a client built for region \<open>NA\<close> with
  \<open>sandbox=True\<close>, given the token \<open>T\<close> and the profile \<open>P1\<close>, \<open>list_campaigns()\<close>
  requests \<open>https://<NA sandbox host>/v2/sp/campaigns\<close>.
\<close>

theorem operation_url_composition:
  assumes "access_token (self w) = Some tok"
    and "(profile_id (self w) \<noteq> None \<and> profile_id (self w) \<noteq> Some [])
         \<or> contains ''profiles'' path"
  shows "map url (sent (snd (operation env path ps verb version w))) =
           map url (sent w) @
           [''https://'' @ endpoint (self w)
              @ (case version of Some v \<Rightarrow> ''/'' @ v | None \<Rightarrow> [])
              @ ''/'' @ path
              @ (if verb = ''GET'' then (case ps of Some q \<Rightarrow> ''?'' @ urlencode q | None \<Rightarrow> [])
                 else [])]
         \<and> (regions env ''NA'' = Some r \<longrightarrow>
              (\<exists>s0. init env cid secret ''NA'' None None None True = Inr s0 \<and>
                 map url (sent (snd (list_campaigns env None False
                    \<lparr>self = s0\<lparr>access_token := Some ''T'', profile_id := Some ''P1''\<rparr>,
                     opener_installed = False, sent = []\<rparr>))) =
                 [''https://'' @ sandbox_host r @ ''/v2/sp/campaigns'']))"
  using assms
  by (cases version)
     (auto simp: operation_def operation_send_world operation_request_def operation_url_def
        init_def list_campaigns_def)

theorem operation_url_composition_witness:
  "map url (sent (snd (operation env_offline ''history'' (Some [(''a'', SStr ''x'')]) ''POST'' None
       (fresh (example_session (Some ''T'') None (Some ''P1'')))))) =
     [''https://sandbox.example/history'']
   \<and> map url (sent (snd (operation env_offline ''sp/campaigns'' (Some [(''a'', SStr ''x'')]) ''GET''
       (Some ''v2'') (fresh (example_session (Some ''T'') None (Some ''P1'')))))) =
     [''https://sandbox.example/v2/sp/campaigns?a=x'']
   \<and> map url (sent (snd (operation env_offline ''profiles'' None ''GET''
       (Some ''v2'') (fresh (example_session (Some ''T'') None None))))) =
     [''https://sandbox.example/v2/profiles'']
   \<and> init env_offline ''C'' ''S'' ''NA'' None None None True = Inr (example_session None None None)
   \<and> map url (sent (snd (list_campaigns env_offline None False
         \<lparr>self = (example_session None None None)\<lparr>access_token := Some ''T'',
                                                     profile_id := Some ''P1''\<rparr>,
          opener_installed = False, sent = []\<rparr>))) =
       [''https://sandbox.example/v2/sp/campaigns'']"
  using operation_url_composition [of "fresh (example_session (Some ''T'') None (Some ''P1''))"
      "''T''" "''history''" env_offline "Some [(''a'', SStr ''x'')]" "''POST''" None
      "\<lparr>prod = ''prod.example'', sandbox_host = ''sandbox.example'',
        region_token_url = ''token.example/auth''\<rparr>" "''C''" "''S''"]
    operation_url_composition [of "fresh (example_session (Some ''T'') None (Some ''P1''))"
      "''T''" "''sp/campaigns''" env_offline "Some [(''a'', SStr ''x'')]" "''GET''"
      "Some ''v2''"
      "\<lparr>prod = ''prod.example'', sandbox_host = ''sandbox.example'',
        region_token_url = ''token.example/auth''\<rparr>" "''C''" "''S''"]
    operation_url_composition [of "fresh (example_session (Some ''T'') None None)"
      "''T''" "''profiles''" env_offline None "''GET''"
      "Some ''v2''"
      "\<lparr>prod = ''prod.example'', sandbox_host = ''sandbox.example'',
        region_token_url = ''token.example/auth''\<rparr>" "''C''" "''S''"]
  by (simp add: example_defs init_def urlencode_def quote_plus_def quote_char_def always_safe_def
      list_campaigns_def)

subsection \<open>Requests for reports and snapshots\<close>

text \<open>
  Claim C10. \<open>request_report\<close> with neither a record type nor a report id returns
  \<open>{'success': False, 'code': 0, 'response': 'record_type and report_id are both empty.'}\<close>,
  \<open>request_snapshot\<close> with neither a record type nor a snapshot id returns the same with
  \<open>'record_type and snapshot_id are both empty.'\<close>; in both the state is as before, so
  nothing was handed to \<open>urlopen\<close>.
\<close>

theorem request_without_ids:
  "request_report env None None d campaign_type w =
     (Inr \<lparr>success = False, code = 0,
           response = Text ''record_type and report_id are both empty.''\<rparr>, w) \<and>
   request_snapshot env None None d campaign_type w =
     (Inr \<lparr>success = False, code = 0,
           response = Text ''record_type and snapshot_id are both empty.''\<rparr>, w)"
  by (simp add: request_report_def request_snapshot_def)

text \<open>
  What \<open>get_report\<close> does with the status result \<open>res\<close> of \<open>_operation\<close>: a code other than
  200 returns it unchanged; with code 200 and a body that decodes to an object with
  status \<open>SUCCESS\<close> the result is that of \<open>_download\<close> on the object's location; with code
  200 and another status it is returned unchanged.
\<close>

lemma get_report_status_or_artifact:
  assumes "operation env (''reports/'' @ report_id) None ''GET'' (Some ''v2'') w = (Inr res, w')"
  shows "code res \<noteq> 200 \<Longrightarrow> get_report env report_id w = (Inr res, w')"
    and "code res = 200 \<Longrightarrow> loads_item env res ''status'' = Inr (JStr ''SUCCESS'') \<Longrightarrow>
         loads_item env res ''location'' = Inr loc \<Longrightarrow>
         get_report env report_id w = download env loc w'"
    and "code res = 200 \<Longrightarrow> loads_item env res ''status'' = Inr st \<Longrightarrow> st \<noteq> JStr ''SUCCESS'' \<Longrightarrow>
         get_report env report_id w = (Inr res, w')"
  using assms by (simp_all add: get_report_def download_location_def)

text \<open>
  Claim C1 holds for \<open>get_report\<close> (above) and fails for \<open>get_snapshot\<close>, whose condition
  lacks \<open>res['code'] == 200\<close>. On a client without access token \<open>get_report('1')\<close> returns
  the result of \<open>_operation\<close> unchanged, while \<open>get_snapshot('1')\<close> hands the text
  \<open>access_token is empty.\<close> to \<open>json.loads\<close> and raises. When the status request is
  answered with 202 and a body whose status is \<open>SUCCESS\<close>, \<open>get_report\<close> returns the status
  result and \<open>get_snapshot\<close> starts the download.
\<close>

theorem get_snapshot_skips_code_check:
  "get_report env_offline ''1'' (fresh (example_session None None (Some ''P1''))) =
     (Inr \<lparr>success = False, code = 0, response = Text ''access_token is empty.''\<rparr>,
      fresh (example_session None None (Some ''P1'')))
   \<and> get_snapshot env_offline ''1'' (fresh (example_session None None (Some ''P1''))) =
     (Inl JSONDecodeError, fresh (example_session None None (Some ''P1'')))
   \<and> fst (get_report env_accepted ''1'' (fresh (example_session (Some ''T'') None (Some ''P1'')))) =
     Inr \<lparr>success = True, code = 202, response = Text status_body\<rparr>
   \<and> map url (sent (snd (get_report env_accepted ''1''
        (fresh (example_session (Some ''T'') None (Some ''P1'')))))) =
     [''https://sandbox.example/v2/reports/1'']
   \<and> fst (get_snapshot env_accepted ''1'' (fresh (example_session (Some ''T'') None (Some ''P1'')))) =
     Inl TransportError
   \<and> map url (sent (snd (get_snapshot env_accepted ''1''
        (fresh (example_session (Some ''T'') None (Some ''P1'')))))) =
     [''https://sandbox.example/v2/snapshots/1'', ''https://sandbox.example/v2/snapshots/1/download'']"
  by (simp add: get_report_def get_snapshot_def loads_item_def download_location_def
      operation_defs download_def download_request_def env_accepted_def example_defs)

subsection \<open>The token refresh\<close>









subsection \<open>The downloader\<close>




text \<open>
  A first response that is not a redirect (2xx) is answered with \<open>Location not found.\<close>
  and the status of that response.
\<close>

lemma download_location_not_found:
  assumes "profile_id (self w) = Some p"
    and "net env (sent w) (download_request (self w) p u) = Some r"
    and "200 \<le> rcode r" and "rcode r < 300"
  shows "download env (JStr u) w =
           (Inr \<lparr>success = False, code = rcode r, response = Text ''Location not found.''\<rparr>,
            w\<lparr>opener_installed := True, sent := sent w @ [download_request (self w) p u]\<rparr>)"
  using assms by (simp add: download_defs)


subsection \<open>The two encodings of the parameters\<close>






lemma char_of_nibbles: "char_of (16 * ((of_char c :: nat) div 16) + (of_char c :: nat) mod 16) = c"
  by simp














































end
